theory Spec2Isabelle
  imports Main
begin

section \<open>The component state and the calls it makes\<close>

text \<open>
  \<^verbatim>\<open>App.js\<close> is one React function component. Its state lives in \<^verbatim>\<open>useState\<close>
  cells and one \<^verbatim>\<open>useRef\<close>; every handler reads the cells and calls their setters,
  the speech module, the camera and \<^verbatim>\<open>fetch\<close>. The model is explicit state passing:
  a record of the cells, and the list of calls made to the outside (setters included),
  in program order. A handler is a function from the state before the event to the
  state after it; a press is dispatched to the handler of the latest render, so a
  button's handler reads the cells as the previous event left them. The buttons belong to the
  main screen, which is rendered once \<open>hasPermission\<close> is true; their handlers are
  modelled for every state.

  A JavaScript value that may be \<^verbatim>\<open>undefined\<close> is an \<open>option\<close>, \<open>None\<close> being
  \<^verbatim>\<open>undefined\<close> (\<^verbatim>\<open>null\<close> for \<open>hasPermission\<close>). An \<^verbatim>\<open>Error\<close> is its
  \<^verbatim>\<open>message\<close>. The \<^verbatim>\<open>console\<close> calls and the constant options of
  \<^verbatim>\<open>Speech.speak\<close> and \<^verbatim>\<open>takePictureAsync\<close> are left out.
\<close>

text \<open>A promise that has settled: fulfilled with a value, or rejected with an error.\<close>

datatype 'a settled = Resolved 'a | Rejected string

text \<open>What \<^verbatim>\<open>takePictureAsync\<close> resolves to; only \<^verbatim>\<open>photo.base64\<close> is read.\<close>

datatype photo = Photo (base64: string)

text \<open>The \<^verbatim>\<open>Response\<close> object of \<^verbatim>\<open>fetch\<close>; only its \<^verbatim>\<open>json()\<close> is called.\<close>

datatype response = Response

text \<open>
  The parsed body, in the shape of the backend's \<^verbatim>\<open>generateContent\<close> answer: every
  field the code tests may be absent. An error answer of the backend
  (\<^verbatim>\<open>{"error": ...}\<close>) is a result with no \<^verbatim>\<open>candidates\<close>.
\<close>

datatype part = Part (part_text: "string option")

datatype content = Content (content_parts: "part list option")

datatype candidate = Candidate (candidate_content: "content option")

datatype result = Result (result_candidates: "candidate list option")

text \<open>The request body: one user turn with the prompt and the inlined image.\<close>

record payload =
  payload_text :: string
  payload_mimeType :: string
  payload_data :: string

datatype call =
    SetMessage "string option"
  | SetIsProcessing bool
  | SetCurrentMode string
  | SpeechStop
  | SpeechSpeak "string option"
  | TakePictureAsync
  | Fetch string payload
  | ResponseJson

record app =
  hasPermission :: "bool option"
  cameraReady :: bool
  currentMode :: string
  message :: "string option"
  isProcessing :: bool
  remoteControlEnabled :: bool
  serverStatus :: string
  deviceIP :: string
  cameraRef :: bool
  Camera :: bool
  Speech :: bool
  calls :: "call list"

text \<open>
  \<open>cameraRef\<close> says that \<^verbatim>\<open>cameraRef.current\<close> is set; \<open>Camera\<close> and \<open>Speech\<close>
  say that the two imported modules are truthy. The state of the first render:
\<close>

definition initial_app :: app where
  "initial_app =
     \<lparr>hasPermission = None, cameraReady = False, currentMode = ''passive'',
      message = Some ''Initializing app...'', isProcessing = False,
      remoteControlEnabled = False, serverStatus = ''Stopped'', deviceIP = [],
      cameraRef = False, Camera = True, Speech = True, calls = []\<rparr>"

text \<open>The state once permission is granted and the camera view has reported ready.\<close>

definition ready_app :: app where
  "ready_app = initial_app\<lparr>hasPermission := Some True, cameraReady := True, cameraRef := True\<rparr>"

subsection \<open>Setters and the speech module\<close>

definition setMessage :: "string option \<Rightarrow> app \<Rightarrow> app" where
  "setMessage msg s = s\<lparr>message := msg, calls := calls s @ [SetMessage msg]\<rparr>"

definition setIsProcessing :: "bool \<Rightarrow> app \<Rightarrow> app" where
  "setIsProcessing b s = s\<lparr>isProcessing := b, calls := calls s @ [SetIsProcessing b]\<rparr>"

definition setCurrentMode :: "string \<Rightarrow> app \<Rightarrow> app" where
  "setCurrentMode m s = s\<lparr>currentMode := m, calls := calls s @ [SetCurrentMode m]\<rparr>"

definition Speech_stop :: "app \<Rightarrow> app" where
  "Speech_stop s = s\<lparr>calls := calls s @ [SpeechStop]\<rparr>"

definition Speech_speak :: "string option \<Rightarrow> app \<Rightarrow> app" where
  "Speech_speak txt s = s\<lparr>calls := calls s @ [SpeechSpeak txt]\<rparr>"

definition takePictureAsync :: "app \<Rightarrow> app" where
  "takePictureAsync s = s\<lparr>calls := calls s @ [TakePictureAsync]\<rparr>"

definition fetch :: "string \<Rightarrow> payload \<Rightarrow> app \<Rightarrow> app" where
  "fetch url body s = s\<lparr>calls := calls s @ [Fetch url body]\<rparr>"

definition response_json :: "app \<Rightarrow> app" where
  "response_json s = s\<lparr>calls := calls s @ [ResponseJson]\<rparr>"

text \<open>\<^verbatim>\<open>speak\<close>: stop the current utterance, then speak the new text.\<close>

definition speak :: "string option \<Rightarrow> app \<Rightarrow> app" where
  "speak txt s = Speech_speak txt (Speech_stop s)"

definition updateMessage :: "string option \<Rightarrow> bool \<Rightarrow> app \<Rightarrow> app" where
  "updateMessage msg shouldSpeak s =
     (let s1 = setMessage msg s in if shouldSpeak then speak msg s1 else s1)"

subsection \<open>The remote command handler\<close>

text \<open>
  \<^verbatim>\<open>String.prototype.toLowerCase\<close> on ASCII text: the letters A to Z are mapped, every
  other character is kept.
\<close>

definition toLowerCase_char :: "char \<Rightarrow> char" where
  "toLowerCase_char c =
     (case map_of (zip ''ABCDEFGHIJKLMNOPQRSTUVWXYZ'' ''abcdefghijklmnopqrstuvwxyz'') c of
        Some l \<Rightarrow> l
      | None \<Rightarrow> c)"

definition toLowerCase :: "string \<Rightarrow> string" where
  "toLowerCase str = map toLowerCase_char str"

text \<open>
  \<^verbatim>\<open>handleRemoteCommand\<close> reads \<^verbatim>\<open>currentMode\<close>, the variable of the render that
  created the handler: a snapshot, which \<^verbatim>\<open>setCurrentMode\<close> does not change. It is the
  first argument here. The source never calls the handler, so which render's handler a
  command reaches is not in the code.
\<close>

definition handleRemoteCommand :: "string \<Rightarrow> string \<Rightarrow> app \<Rightarrow> app" where
  "handleRemoteCommand currentMode_seen command s =
     (let c = toLowerCase command in
      if c = ''speak'' then speak (Some ''Hello from remote device!'') s
      else if c = ''status'' then speak (Some (''Current mode is '' @ currentMode_seen)) s
      else if c = ''read'' then speak (Some ''Mode set to read'') (setCurrentMode ''read'' s)
      else if c = ''navigate'' then
        speak (Some ''Mode set to navigate'') (setCurrentMode ''navigate'' s)
      else if c = ''passive'' then
        speak (Some ''Mode set to passive'') (setCurrentMode ''passive'' s)
      else speak (Some (''Received command: '' @ command)) s)"


subsection \<open>The mode buttons and the Stop button\<close>

definition read_onPress :: "app \<Rightarrow> app" where
  \<open>read_onPress s =
     updateMessage (Some ''Mode set to Read. Tap "Read Document" to scan text.'') True
       (setCurrentMode ''read'' s)\<close>

definition navigate_onPress :: "app \<Rightarrow> app" where
  \<open>navigate_onPress s =
     updateMessage
       (Some ''Mode set to Navigate. Tap "Get Navigation Cues" for indoor guidance.'') True
       (setCurrentMode ''navigate'' s)\<close>

definition passive_onPress :: "app \<Rightarrow> app" where
  \<open>passive_onPress s =
     updateMessage
       (Some ''Mode set to Passive. Tap "Describe Environment" for general descriptions.'')
       True (setCurrentMode ''passive'' s)\<close>

definition stop_onPress :: "app \<Rightarrow> app" where
  "stop_onPress s =
     updateMessage (Some ''Stopped all operations'') True
       (setIsProcessing False (Speech_stop s))"

subsection \<open>The prompt of a mode\<close>

definition getPromptForMode :: "string \<Rightarrow> string" where
  "getPromptForMode mode =
     (if mode = ''read'' then
        ''Extract all readable text from this image. No extra commentary or explanation. Prioritize the most important text.''
      else if mode = ''navigate'' then
        ''Describe the immediate environment for indoor navigation. Identify key objects, obstacles, pathways, and directional cues. Mention any furniture, doors, stairs, changes in floor level, or other significant features. Provide guidance on what's directly in front, to the left, and to the right. Highlight potential hazards or clear paths.''
      else
        ''Describe the scene briefly. Focus on elements that would be helpful for a visually impaired person to navigate or understand their surroundings. For example, if there's text, read it out. If there are obstacles, describe them. Be concise but informative.'')"

subsection \<open>The capture pipeline\<close>

text \<open>
  \<^verbatim>\<open>processImage\<close> is an \<^verbatim>\<open>async\<close> function with three \<^verbatim>\<open>await\<close>s: the picture, the
  \<^verbatim>\<open>fetch\<close> and \<^verbatim>\<open>response.json()\<close>. It is modelled as four functions, one per
  stretch of code that runs without interruption; other handlers (Stop, the mode
  buttons) may run between two of them. The first stretch returns the suspended run,
  which holds what the later stretches read from the closure of the render the press
  came from: \<^verbatim>\<open>currentMode\<close>.
\<close>

datatype run = Run (run_currentMode: string)

definition apiKey :: string where
  "apiKey = ''{insert here}''"

definition apiUrl :: string where
  "apiUrl =
     ''https://generativelanguage.googleapis.com/v1beta/models/gemini-2.0-flash:generateContent?key=''
       @ apiKey"

text \<open>Up to \<^verbatim>\<open>await cameraRef.current.takePictureAsync(...)\<close>.\<close>

definition processImage :: "app \<Rightarrow> app \<times> run option" where
  "processImage s =
     (if \<not> cameraReady s \<or> \<not> cameraRef s then
        (updateMessage (Some ''Camera not ready. Please wait or refresh the app.'') True s, None)
      else
        (takePictureAsync
           (Speech_stop
              (updateMessage (Some ''Analyzing image, please wait...'') False
                 (setIsProcessing True s))),
         Some (Run (currentMode s))))"

text \<open>The \<^verbatim>\<open>catch\<close> block and the \<^verbatim>\<open>finally\<close> block.\<close>

definition errorMessage :: "string \<Rightarrow> string" where
  "errorMessage error_message =
     ''Failed to get description: '' @ error_message @ ''. Please try again.''"

definition processImage_catch :: "string \<Rightarrow> app \<Rightarrow> app" where
  "processImage_catch error_message s = updateMessage (Some (errorMessage error_message)) True s"

definition processImage_finally :: "app \<Rightarrow> app" where
  "processImage_finally s = setIsProcessing False s"

text \<open>
  From the settling of the picture to \<^verbatim>\<open>await fetch(...)\<close>. The boolean says whether the
  run is still suspended afterwards.
\<close>

definition processImage_afterCapture :: "run \<Rightarrow> photo settled \<Rightarrow> app \<Rightarrow> app \<times> bool" where
  "processImage_afterCapture r p s =
     (case p of
        Rejected e \<Rightarrow> (processImage_finally (processImage_catch e s), False)
      | Resolved ph \<Rightarrow>
          (fetch apiUrl
             \<lparr>payload_text = getPromptForMode (run_currentMode r),
              payload_mimeType = ''image/jpeg'',
              payload_data = base64 ph\<rparr> s,
           True))"

text \<open>From the settling of \<^verbatim>\<open>fetch\<close> to \<^verbatim>\<open>await response.json()\<close>.\<close>

definition processImage_afterFetch :: "response settled \<Rightarrow> app \<Rightarrow> app \<times> bool" where
  "processImage_afterFetch f s =
     (case f of
        Rejected e \<Rightarrow> (processImage_finally (processImage_catch e s), False)
      | Resolved resp \<Rightarrow> (response_json s, True))"

text \<open>The description taken from the parsed body, or the fixed fallback.\<close>

definition fallback :: string where
  "fallback = ''No clear description was generated. Please try again.''"

definition description :: "result \<Rightarrow> string option" where
  "description res =
     (case result_candidates res of
        None \<Rightarrow> Some fallback
      | Some [] \<Rightarrow> Some fallback
      | Some (c # _) \<Rightarrow>
          (case candidate_content c of
             None \<Rightarrow> Some fallback
           | Some ct \<Rightarrow>
               (case content_parts ct of
                  None \<Rightarrow> Some fallback
                | Some [] \<Rightarrow> Some fallback
                | Some (p # _) \<Rightarrow> part_text p)))"

text \<open>From the settling of \<^verbatim>\<open>response.json()\<close> to the end of the function.\<close>

definition processImage_afterJson :: "result settled \<Rightarrow> app \<Rightarrow> app" where
  "processImage_afterJson j s =
     (case j of
        Rejected e \<Rightarrow> processImage_finally (processImage_catch e s)
      | Resolved res \<Rightarrow> processImage_finally (updateMessage (description res) True s))"

text \<open>
  The capture button: \<^verbatim>\<open>onPress={processImage}\<close> behind the \<^verbatim>\<open>disabled\<close> prop; a
  disabled button does not call its handler.
\<close>

definition capture_disabled :: "app \<Rightarrow> bool" where
  "capture_disabled s = (\<not> cameraReady s \<or> isProcessing s \<or> \<not> Camera s \<or> \<not> Speech s)"

definition capture_onPress :: "app \<Rightarrow> app \<times> run option" where
  "capture_onPress s = (if capture_disabled s then (s, None) else processImage s)"

text \<open>
  One whole run with nothing else happening in between, given how the three promises
  settle (a later one is not looked at when an earlier one rejects).
\<close>

definition processImage_run ::
  "photo settled \<Rightarrow> response settled \<Rightarrow> result settled \<Rightarrow> app \<Rightarrow> app" where
  "processImage_run p f j s =
     (case processImage s of
        (s1, None) \<Rightarrow> s1
      | (s1, Some r) \<Rightarrow>
          (case processImage_afterCapture r p s1 of
             (s2, False) \<Rightarrow> s2
           | (s2, True) \<Rightarrow>
               (case processImage_afterFetch f s2 of
                  (s3, False) \<Rightarrow> s3
                | (s3, True) \<Rightarrow> processImage_afterJson j s3)))"

subsection \<open>Reading the call list\<close>

text \<open>The calls made between an earlier state and a later one.\<close>

definition emitted :: "app \<Rightarrow> app \<Rightarrow> call list" where
  "emitted s s' = drop (length (calls s)) (calls s')"

fun is_utterance :: "call \<Rightarrow> bool" where
  "is_utterance (SpeechSpeak _) = True"
| "is_utterance _ = False"

fun is_fetch :: "call \<Rightarrow> bool" where
  "is_fetch (Fetch _ _) = True"
| "is_fetch _ = False"

fun is_capture :: "call \<Rightarrow> bool" where
  "is_capture TakePictureAsync = True"
| "is_capture _ = False"

text \<open>A call that only speaks or sets the mode.\<close>

fun is_speech_or_mode :: "call \<Rightarrow> bool" where
  "is_speech_or_mode SpeechStop = True"
| "is_speech_or_mode (SpeechSpeak _) = True"
| "is_speech_or_mode (SetCurrentMode _) = True"
| "is_speech_or_mode _ = False"

subsection \<open>Scenarios and sample inputs\<close>

text \<open>
  Stop is pressed while the \<^verbatim>\<open>fetch\<close> of a run is in flight; afterwards the
  \<^verbatim>\<open>fetch\<close> settles and the suspended run goes on from there.
\<close>

definition stop_while_awaiting :: "response settled \<Rightarrow> result settled \<Rightarrow> app \<Rightarrow> app" where
  "stop_while_awaiting f j s =
     (case processImage_afterFetch f (stop_onPress s) of
        (s1, False) \<Rightarrow> s1
      | (s1, True) \<Rightarrow> processImage_afterJson j s1)"

text \<open>Stop is pressed later, while \<^verbatim>\<open>response.json()\<close> is pending.\<close>

definition stop_while_parsing :: "result settled \<Rightarrow> app \<Rightarrow> app" where
  "stop_while_parsing j s = processImage_afterJson j (stop_onPress s)"

text \<open>
  The state with a run awaiting the backend: from the ready state in mode \<^verbatim>\<open>read\<close>,
  the capture button was pressed and the picture has been taken.
\<close>

definition awaiting_app :: app where
  "awaiting_app =
     fst (processImage_afterCapture (Run ''read'') (Resolved (Photo ''/9j/4AAQ''))
            (fst (capture_onPress (ready_app\<lparr>currentMode := ''read''\<rparr>))))"

text \<open>A body with one candidate whose only part has the given text.\<close>

definition one_candidate :: "string \<Rightarrow> result" where
  "one_candidate txt = Result (Some [Candidate (Some (Content (Some [Part (Some txt)])))])"

text \<open>
  The texts a body holds, over all its candidates and parts, and whether one of them is
  not empty: the condition of the specification's sentence on the backend's answer.
\<close>

definition candidate_texts :: "result \<Rightarrow> string list" where
  "candidate_texts res =
     (case result_candidates res of
        None \<Rightarrow> []
      | Some cs \<Rightarrow>
          concat (map (\<lambda>c. case candidate_content c of
                              None \<Rightarrow> []
                            | Some ct \<Rightarrow>
                                (case content_parts ct of
                                   None \<Rightarrow> []
                                 | Some ps \<Rightarrow>
                                     concat (map (\<lambda>p. case part_text p of
                                                         None \<Rightarrow> []
                                                       | Some t \<Rightarrow> [t]) ps))) cs))"

definition has_nonempty_candidate_text :: "result \<Rightarrow> bool" where
  "has_nonempty_candidate_text res = list_ex (\<lambda>t. t \<noteq> []) (candidate_texts res)"

section \<open>Properties\<close>

lemmas call_defs =
  setMessage_def setIsProcessing_def setCurrentMode_def Speech_stop_def Speech_speak_def
  takePictureAsync_def fetch_def response_json_def speak_def updateMessage_def

lemmas pipeline_defs =
  processImage_def processImage_catch_def processImage_finally_def
  processImage_afterCapture_def processImage_afterFetch_def processImage_afterJson_def

lemmas sample_defs = initial_app_def ready_app_def one_candidate_def


subsection \<open>The prompt resolver\<close>

text \<open>
  C9: for each of the modes read, navigate and passive, \<^verbatim>\<open>getPromptForMode\<close> returns
  its fixed instruction text (verbatim extraction without commentary; obstacles,
  pathways, doors and stairs with front, left and right; a concise scene summary), and
  its result is never the empty string.
\<close>

theorem getPromptForMode_fixed_nonempty:
  "getPromptForMode ''read'' =
     ''Extract all readable text from this image. No extra commentary or explanation. Prioritize the most important text.''
   \<and> getPromptForMode ''navigate'' =
     ''Describe the immediate environment for indoor navigation. Identify key objects, obstacles, pathways, and directional cues. Mention any furniture, doors, stairs, changes in floor level, or other significant features. Provide guidance on what's directly in front, to the left, and to the right. Highlight potential hazards or clear paths.''
   \<and> getPromptForMode ''passive'' =
     ''Describe the scene briefly. Focus on elements that would be helpful for a visually impaired person to navigate or understand their surroundings. For example, if there's text, read it out. If there are obstacles, describe them. Be concise but informative.''
   \<and> getPromptForMode mode \<noteq> []"
  by (simp add: getPromptForMode_def)

subsection \<open>The remote command handler\<close>

lemma emitted_append [simp]: "emitted s (s'\<lparr>calls := calls s @ d\<rparr>) = d"
  by (simp add: emitted_def)

text \<open>Calls are only ever appended: a run extends the list it started from.\<close>

lemma processImage_run_extends_calls:
  "calls (processImage_run p f j s) = calls s @ emitted s (processImage_run p f j s)"
  by (cases p; cases f; cases j)
     (simp_all add: processImage_run_def processImage_def processImage_catch_def
        processImage_finally_def processImage_afterCapture_def processImage_afterFetch_def
        processImage_afterJson_def setMessage_def setIsProcessing_def Speech_stop_def
        Speech_speak_def takePictureAsync_def fetch_def response_json_def speak_def
        updateMessage_def emitted_def Let_def)






text \<open>
  C10: handling a remote command leaves the displayed message as it was. Whatever the
  token, every cell but the mode is unchanged and the calls made are speech calls and
  at most \<^verbatim>\<open>setCurrentMode\<close>; a press on a mode button sets both the mode and the
  displayed message.
\<close>

theorem remote_command_keeps_message:
  \<open>message (handleRemoteCommand m command s) = message s
   \<and> (handleRemoteCommand m command s)\<lparr>currentMode := currentMode s, calls := calls s\<rparr> = s
   \<and> list_all is_speech_or_mode (emitted s (handleRemoteCommand m command s))
   \<and> currentMode (read_onPress s) = ''read''
   \<and> message (read_onPress s) = Some ''Mode set to Read. Tap "Read Document" to scan text.''
   \<and> currentMode (navigate_onPress s) = ''navigate''
   \<and> message (navigate_onPress s) =
       Some ''Mode set to Navigate. Tap "Get Navigation Cues" for indoor guidance.''
   \<and> currentMode (passive_onPress s) = ''passive''
   \<and> message (passive_onPress s) =
       Some ''Mode set to Passive. Tap "Describe Environment" for general descriptions.''\<close>
  by (simp add: handleRemoteCommand_def read_onPress_def navigate_onPress_def
      passive_onPress_def call_defs emitted_def Let_def)

theorem remote_command_keeps_message_witness:
  "message (handleRemoteCommand ''passive'' ''read'' ready_app) = Some ''Initializing app...''
   \<and> currentMode (handleRemoteCommand ''passive'' ''read'' ready_app) = ''read''
   \<and> currentMode (read_onPress ready_app) = ''read''
   \<and> message (read_onPress ready_app) \<noteq> message ready_app"
  using remote_command_keeps_message [of "''passive''" "''read''" ready_app]
  by (simp add: sample_defs handleRemoteCommand_def toLowerCase_def toLowerCase_char_def
      call_defs Let_def)

subsection \<open>The capture pipeline\<close>

text \<open>
  \<^verbatim>\<open>processImage\<close> itself does not look at \<^verbatim>\<open>isProcessing\<close>: called in a ready
  state it starts a run whatever the flag says. What rejects a press during a run is
  the \<^verbatim>\<open>disabled\<close> prop of the capture button.
\<close>

lemma processImage_starts_when_ready:
  "cameraReady s \<Longrightarrow> cameraRef s \<Longrightarrow> snd (processImage s) = Some (Run (currentMode s))"
  by (simp add: processImage_def)

text \<open>
  C2: in every state whose processing flag is true, a press on the capture button does
  nothing: the state and the list of calls are unchanged (no picture is taken, no
  backend call is made) and no run is started or queued.
\<close>

theorem press_while_processing_is_noop:
  "isProcessing s \<Longrightarrow>
     capture_onPress s = (s, None) \<and> emitted s (fst (capture_onPress s)) = []"
  by (simp add: capture_onPress_def capture_disabled_def emitted_def)

theorem press_while_processing_is_noop_witness:
  "isProcessing awaiting_app
   \<and> capture_onPress awaiting_app = (awaiting_app, None)
   \<and> emitted awaiting_app (fst (capture_onPress awaiting_app)) = []"
proof -
  have p: "isProcessing awaiting_app"
    by (simp add: awaiting_app_def capture_onPress_def capture_disabled_def sample_defs
        pipeline_defs call_defs Let_def)
  from p press_while_processing_is_noop [OF p] show ?thesis by blast
qed

text \<open>
  What a stretch of a run calls does not depend on the state it resumes in, so handlers
  that run between two stretches do not change the calls the run itself makes.
\<close>

lemma stretch_calls_state_independent:
  "emitted s (fst (processImage_afterCapture r p s)) =
     emitted t (fst (processImage_afterCapture r p t))"
  "emitted s (fst (processImage_afterFetch f s)) = emitted t (fst (processImage_afterFetch f t))"
  "emitted s (processImage_afterJson j s) = emitted t (processImage_afterJson j t)"
  by (cases p; cases f; cases j;
      simp add: pipeline_defs call_defs emitted_def Let_def)+

text \<open>
  C5: a run that got past the entry guard and ran to its end, however the picture, the
  \<^verbatim>\<open>fetch\<close> and the parsing settle, has made exactly one \<^verbatim>\<open>Speech.speak\<close> call and
  exactly one \<^verbatim>\<open>setIsProcessing(false)\<close> call, and leaves the processing flag false.
  (The utterance count also holds for the press rejected at the guard.)
\<close>

theorem run_speaks_once_clears_once:
  "length (filter is_utterance (emitted s (processImage_run p f j s))) = 1
   \<and> (cameraReady s \<and> cameraRef s \<longrightarrow>
        count_list (emitted s (processImage_run p f j s)) (SetIsProcessing False) = 1
        \<and> \<not> isProcessing (processImage_run p f j s))"
  by (cases p; cases f; cases j)
     (simp_all add: processImage_run_def pipeline_defs call_defs emitted_def Let_def)

theorem run_speaks_once_clears_once_witness:
  "cameraReady ready_app \<and> cameraRef ready_app
   \<and> length (filter is_utterance (emitted ready_app
        (processImage_run (Resolved (Photo ''/9j/4AAQ'')) (Rejected ''Network request failed'')
           (Resolved (one_candidate ''Exit sign ahead'')) ready_app))) = 1
   \<and> count_list (emitted ready_app
        (processImage_run (Resolved (Photo ''/9j/4AAQ'')) (Rejected ''Network request failed'')
           (Resolved (one_candidate ''Exit sign ahead'')) ready_app)) (SetIsProcessing False) = 1
   \<and> \<not> isProcessing
        (processImage_run (Resolved (Photo ''/9j/4AAQ'')) (Rejected ''Network request failed'')
           (Resolved (one_candidate ''Exit sign ahead'')) ready_app)"
  using run_speaks_once_clears_once
    [of ready_app "Resolved (Photo ''/9j/4AAQ'')" "Rejected ''Network request failed''"
        "Resolved (one_candidate ''Exit sign ahead'')"]
  by (simp add: sample_defs)

text \<open>
  C6: when the \<^verbatim>\<open>fetch\<close> rejects (transport error) or \<^verbatim>\<open>response.json()\<close> rejects
  (parse error), the run ends with one message, displayed and spoken once, that holds
  the error's message between "Failed to get description: " and ". Please try again.";
  the processing flag is false afterwards, and the capture button is enabled again
  exactly when the camera is ready and both modules are loaded.
\<close>

theorem backend_error_reported_once:
  "errorMessage e = ''Failed to get description: '' @ e @ ''. Please try again.''
   \<and> processImage_afterFetch (Rejected e) s =
       (processImage_finally (processImage_catch e s), False)
   \<and> processImage_afterJson (Rejected e) s = processImage_finally (processImage_catch e s)
   \<and> emitted s (processImage_finally (processImage_catch e s)) =
       [SetMessage (Some (errorMessage e)), SpeechStop, SpeechSpeak (Some (errorMessage e)),
        SetIsProcessing False]
   \<and> message (processImage_finally (processImage_catch e s)) = Some (errorMessage e)
   \<and> \<not> isProcessing (processImage_finally (processImage_catch e s))
   \<and> capture_disabled (processImage_finally (processImage_catch e s)) =
       (\<not> (cameraReady s \<and> Camera s \<and> Speech s))"
  by (simp add: pipeline_defs call_defs emitted_def Let_def capture_disabled_def
      errorMessage_def)

theorem backend_error_reported_once_witness:
  "processImage_afterFetch (Rejected ''Network request failed'') awaiting_app =
     (processImage_finally (processImage_catch ''Network request failed'' awaiting_app), False)
   \<and> message (processImage_finally (processImage_catch ''Network request failed'' awaiting_app)) =
       Some ''Failed to get description: Network request failed. Please try again.''
   \<and> \<not> capture_disabled
         (processImage_finally (processImage_catch ''Network request failed'' awaiting_app))"
  using backend_error_reported_once [of "''Network request failed''" awaiting_app]
  by (simp add: awaiting_app_def capture_onPress_def capture_disabled_def sample_defs
      pipeline_defs call_defs Let_def errorMessage_def)

text \<open>
  C7: a failure at or before the capture never reaches the network. When the camera is
  not ready (or its reference is not set) \<^verbatim>\<open>processImage\<close> only displays and speaks
  "Camera not ready. Please wait or refresh the app." and starts no run: no picture is
  taken and no \<^verbatim>\<open>fetch\<close> is made. When \<^verbatim>\<open>takePictureAsync\<close> rejects, the run goes
  straight to the failure message and ends; in no state does a run whose capture
  rejects make a \<^verbatim>\<open>fetch\<close> call.
\<close>

theorem capture_failure_skips_network:
  "(\<not> cameraReady s \<or> \<not> cameraRef s \<longrightarrow>
      processImage s =
        (updateMessage (Some ''Camera not ready. Please wait or refresh the app.'') True s, None)
      \<and> emitted s (processImage_run p f j s) =
          [SetMessage (Some ''Camera not ready. Please wait or refresh the app.''), SpeechStop,
           SpeechSpeak (Some ''Camera not ready. Please wait or refresh the app.'')])
   \<and> processImage_afterCapture r (Rejected e) s =
       (processImage_finally (processImage_catch e s), False)
   \<and> emitted s (processImage_finally (processImage_catch e s)) =
       [SetMessage (Some (errorMessage e)), SpeechStop, SpeechSpeak (Some (errorMessage e)),
        SetIsProcessing False]
   \<and> filter is_fetch (emitted s (processImage_run (Rejected e) f j s)) = []"
proof -
  have not_ready:
    "processImage s =
       (updateMessage (Some ''Camera not ready. Please wait or refresh the app.'') True s, None)"
    "emitted s (processImage_run p f j s) =
       [SetMessage (Some ''Camera not ready. Please wait or refresh the app.''), SpeechStop,
        SpeechSpeak (Some ''Camera not ready. Please wait or refresh the app.'')]"
    if "\<not> cameraReady s \<or> \<not> cameraRef s"
    using that
    by (auto simp add: processImage_run_def processImage_def call_defs emitted_def Let_def)
  have thrown:
    "processImage_afterCapture r (Rejected e) s =
       (processImage_finally (processImage_catch e s), False)"
    "emitted s (processImage_finally (processImage_catch e s)) =
       [SetMessage (Some (errorMessage e)), SpeechStop, SpeechSpeak (Some (errorMessage e)),
        SetIsProcessing False]"
    by (simp_all add: pipeline_defs call_defs emitted_def Let_def)
  have no_fetch: "filter is_fetch (emitted s (processImage_run (Rejected e) f j s)) = []"
  proof (cases "cameraReady s \<and> cameraRef s")
    case True
    then show ?thesis
      by (simp add: processImage_run_def pipeline_defs call_defs emitted_def Let_def)
  next
    case False
    then show ?thesis
      by (auto simp add: processImage_run_def processImage_def call_defs emitted_def Let_def)
  qed
  from not_ready thrown no_fetch show ?thesis by blast
qed

theorem capture_failure_skips_network_witness:
  "\<not> cameraReady initial_app
   \<and> emitted initial_app
       (processImage_run (Resolved (Photo ''/9j/4AAQ'')) (Resolved Response)
          (Resolved (one_candidate ''Exit sign ahead'')) initial_app) =
       [SetMessage (Some ''Camera not ready. Please wait or refresh the app.''), SpeechStop,
        SpeechSpeak (Some ''Camera not ready. Please wait or refresh the app.'')]
   \<and> filter is_fetch (emitted initial_app
       (processImage_run (Rejected ''Camera is not running'') (Resolved Response)
          (Resolved (one_candidate ''Exit sign ahead'')) initial_app)) = []"
  using capture_failure_skips_network
    [of initial_app "Resolved (Photo ''/9j/4AAQ'')" "Resolved Response"
        "Resolved (one_candidate ''Exit sign ahead'')" "Run ''passive''"
        "''Camera is not running''"]
  by (simp add: sample_defs)

subsection \<open>The backend's answer\<close>

text \<open>
  C3, as the specification states it, fails: for the body with one candidate whose first
  part has the empty text, no candidate text is non-empty, yet the run does not report
  the fallback: it displays and speaks the empty string.
\<close>

theorem empty_text_spoken_not_fallback:
  "\<not> has_nonempty_candidate_text (one_candidate [])
   \<and> filter is_utterance (emitted ready_app
        (processImage_run (Resolved (Photo ''/9j/4AAQ'')) (Resolved Response)
           (Resolved (one_candidate [])) ready_app)) = [SpeechSpeak (Some [])]
   \<and> message
        (processImage_run (Resolved (Photo ''/9j/4AAQ'')) (Resolved Response)
           (Resolved (one_candidate [])) ready_app) = Some []
   \<and> Some [] \<noteq> Some fallback"
  by (simp add: has_nonempty_candidate_text_def candidate_texts_def processImage_run_def
      description_def fallback_def pipeline_defs call_defs sample_defs emitted_def Let_def)

text \<open>
  C3, amended: the test is on the structure of the body, not on the text. If the first
  candidate has a content whose list of parts is not empty, the description is the text
  of its first part, whatever that text is; if the body has no candidates, or its first
  candidate has no content, no parts or an empty list of parts, the description is the
  fixed fallback "No clear description was generated. Please try again.". In both cases
  the run displays the description, speaks it once and clears the processing flag; it
  does not take the failure path.
\<close>

theorem description_first_part_or_fallback:
  "description (Result (Some (Candidate (Some (Content (Some (pt # pts)))) # cs))) = part_text pt
   \<and> description (Result None) = Some fallback
   \<and> description (Result (Some [])) = Some fallback
   \<and> description (Result (Some (Candidate None # cs))) = Some fallback
   \<and> description (Result (Some (Candidate (Some (Content None)) # cs))) = Some fallback
   \<and> description (Result (Some (Candidate (Some (Content (Some []))) # cs))) = Some fallback
   \<and> fallback = ''No clear description was generated. Please try again.''
   \<and> emitted s (processImage_afterJson (Resolved res) s) =
       [SetMessage (description res), SpeechStop, SpeechSpeak (description res),
        SetIsProcessing False]
   \<and> (cameraReady s \<and> cameraRef s \<longrightarrow>
        filter is_utterance
          (emitted s (processImage_run (Resolved ph) (Resolved rsp) (Resolved res) s)) =
          [SpeechSpeak (description res)]
        \<and> message (processImage_run (Resolved ph) (Resolved rsp) (Resolved res) s) =
            description res)"
  by (simp add: description_def fallback_def processImage_run_def pipeline_defs call_defs
      emitted_def Let_def)

theorem description_first_part_or_fallback_witness:
  "cameraReady ready_app \<and> cameraRef ready_app
   \<and> filter is_utterance (emitted ready_app
        (processImage_run (Resolved (Photo ''/9j/4AAQ'')) (Resolved Response)
           (Resolved (one_candidate ''Exit sign ahead'')) ready_app)) =
       [SpeechSpeak (Some ''Exit sign ahead'')]
   \<and> filter is_utterance (emitted ready_app
        (processImage_run (Resolved (Photo ''/9j/4AAQ'')) (Resolved Response)
           (Resolved (Result (Some []))) ready_app)) =
       [SpeechSpeak (Some ''No clear description was generated. Please try again.'')]"
  using
    description_first_part_or_fallback
      [of "Part (Some ''Exit sign ahead'')" "[]" "[]" ready_app
          "one_candidate ''Exit sign ahead''" "Photo ''/9j/4AAQ''" Response]
    description_first_part_or_fallback
      [of "Part (Some ''Exit sign ahead'')" "[]" "[]" ready_app
          "Result (Some [])" "Photo ''/9j/4AAQ''" Response]
  by (simp add: sample_defs)

subsection \<open>Stop during a run\<close>

text \<open>
  C1: what the code does when Stop is pressed while a run awaits the backend. The press
  stops the speech, clears the processing flag and announces "Stopped all operations";
  the suspended run is not cancelled. When its \<^verbatim>\<open>fetch\<close> (or, for a later press, its
  \<^verbatim>\<open>response.json()\<close>) settles afterwards, the run never
  sets the flag back to true, but it does display and speak its outcome: the
  description of the late answer, or the failure message of the late rejection. For
  the run of mode \<^verbatim>\<open>read\<close> stopped while awaiting, a late answer "Exit sign ahead" is
  spoken after the Stop announcement.
\<close>

theorem stop_does_not_silence_late_result:
  "\<not> isProcessing (stop_onPress s)
   \<and> emitted s (stop_onPress s) =
       [SpeechStop, SetIsProcessing False, SetMessage (Some ''Stopped all operations''),
        SpeechStop, SpeechSpeak (Some ''Stopped all operations'')]
   \<and> \<not> isProcessing (stop_while_awaiting f j s)
   \<and> count_list (emitted s (stop_while_awaiting f j s)) (SetIsProcessing True) = 0
   \<and> filter is_utterance (emitted s (stop_while_awaiting (Resolved rsp) (Resolved res) s)) =
       [SpeechSpeak (Some ''Stopped all operations''), SpeechSpeak (description res)]
   \<and> message (stop_while_awaiting (Resolved rsp) (Resolved res) s) = description res
   \<and> filter is_utterance (emitted s (stop_while_awaiting (Rejected e) j s)) =
       [SpeechSpeak (Some ''Stopped all operations''), SpeechSpeak (Some (errorMessage e))]
   \<and> \<not> isProcessing (stop_while_parsing j s)
   \<and> count_list (emitted s (stop_while_parsing j s)) (SetIsProcessing True) = 0
   \<and> filter is_utterance (emitted s (stop_while_parsing (Resolved res) s)) =
       [SpeechSpeak (Some ''Stopped all operations''), SpeechSpeak (description res)]
   \<and> isProcessing awaiting_app
   \<and> filter is_utterance (emitted awaiting_app
        (stop_while_awaiting (Resolved Response) (Resolved (one_candidate ''Exit sign ahead''))
           awaiting_app)) =
       [SpeechSpeak (Some ''Stopped all operations''), SpeechSpeak (Some ''Exit sign ahead'')]"
proof -
  have parsing: "\<not> isProcessing (stop_while_parsing j s)"
    "count_list (emitted s (stop_while_parsing j s)) (SetIsProcessing True) = 0"
    "filter is_utterance (emitted s (stop_while_parsing (Resolved res) s)) =
       [SpeechSpeak (Some ''Stopped all operations''), SpeechSpeak (description res)]"
    by (cases j;
        simp add: stop_while_parsing_def stop_onPress_def pipeline_defs call_defs
          emitted_def Let_def)+
  have stop: "\<not> isProcessing (stop_onPress s)"
    "emitted s (stop_onPress s) =
       [SpeechStop, SetIsProcessing False, SetMessage (Some ''Stopped all operations''),
        SpeechStop, SpeechSpeak (Some ''Stopped all operations'')]"
    by (simp_all add: stop_onPress_def call_defs emitted_def Let_def)
  have flag: "\<not> isProcessing (stop_while_awaiting f j s)"
    "count_list (emitted s (stop_while_awaiting f j s)) (SetIsProcessing True) = 0"
    by (cases f; cases j;
        simp add: stop_while_awaiting_def stop_onPress_def pipeline_defs call_defs
          emitted_def Let_def)+
  have late: "filter is_utterance (emitted t (stop_while_awaiting (Resolved q) (Resolved x) t)) =
       [SpeechSpeak (Some ''Stopped all operations''), SpeechSpeak (description x)]"
    "message (stop_while_awaiting (Resolved q) (Resolved x) t) = description x"
    "filter is_utterance (emitted t (stop_while_awaiting (Rejected e) j t)) =
       [SpeechSpeak (Some ''Stopped all operations''), SpeechSpeak (Some (errorMessage e))]"
    for t x q
    by (simp_all add: stop_while_awaiting_def stop_onPress_def pipeline_defs call_defs
        emitted_def Let_def)
  have busy: "isProcessing awaiting_app"
    by (simp add: awaiting_app_def capture_onPress_def capture_disabled_def sample_defs
        pipeline_defs call_defs Let_def)
  have sample: "description (one_candidate ''Exit sign ahead'') = Some ''Exit sign ahead''"
    by (simp add: description_def one_candidate_def)
  from stop flag late parsing busy sample show ?thesis by simp
qed

theorem stop_does_not_silence_late_result_witness:
  "message
     (stop_while_awaiting (Resolved Response) (Resolved (one_candidate ''Exit sign ahead''))
        awaiting_app) = Some ''Exit sign ahead''
   \<and> \<not> isProcessing
        (stop_while_awaiting (Resolved Response) (Resolved (one_candidate ''Exit sign ahead''))
           awaiting_app)"
  using stop_does_not_silence_late_result
    [of awaiting_app "Resolved Response" "Resolved (one_candidate ''Exit sign ahead'')"
        Response "one_candidate ''Exit sign ahead''"]
  by (simp add: description_def one_candidate_def)

end
